theory Spec2Isabelle
  imports Complex_Main "HOL-Library.AList"
begin

section \<open>Values exchanged with the remote service\<close>

text \<open>
  \<open>QTablePanel.tsx\<close> talks to the service in JSON. A parsed body is any JSON value: the
  panel never validates what \<open>r.json()\<close> returns (its TypeScript type is \<open>any\<close>).
  Numbers are only passed through or written as literals, never computed with, so they
  are carried as rationals.
\<close>

datatype json =
    JNull
  | JBool bool
  | JNum rat
  | JStr string
  | JArr "json list"
  | JObj "(string \<times> json) list"

text \<open>A thrown JavaScript \<open>Error\<close> object: its \<open>name\<close> and its \<open>message\<close>.\<close>

datatype js_error = JsError (err_name: string) (err_message: string)

text \<open>
  What awaiting \<open>fetch(url, init)\<close> and then \<open>r.json()\<close> yields. \<open>fetch\<close> rejects only
  when no response arrives; any HTTP status resolves. \<open>r.json()\<close> either rejects (the
  body is not JSON) or gives the parsed value, so a response carries that result.
\<close>

datatype fetch_result =
    Rejected js_error
  | Responded nat "js_error + json"

record request =
  meth :: string
  base :: string
  path :: string
  query :: "(string \<times> string) list"
  headers :: "(string \<times> string) list"
  body :: "json option"

text \<open>The props the panel reads: the resolved \<open>API\<close> base, \<open>userId\<close>, \<open>showDemoControls\<close>.\<close>

record config =
  api :: string
  userId :: string
  showDemoControls :: bool

text \<open>The defaults of the props: \<open>userId = "guest"\<close>, \<open>showDemoControls = true\<close>, the fallback base.\<close>

definition default_props :: config where
  "default_props = \<lparr>api = ''http://127.0.0.1:8000'', userId = ''guest'', showDemoControls = True\<rparr>"

text \<open>
  The five \<open>useState\<close> cells of the component, and the requests handed to \<open>fetch\<close> so far
  (oldest first).
\<close>

record panel =
  rows :: "json list"
  busyDemo :: bool
  refreshing :: bool
  error :: string
  lastUpdated :: "nat option"
  sent :: "request list"

definition initial_panel :: panel where
  "initial_panel =
     \<lparr>rows = [], busyDemo = False, refreshing = False, error = [], lastUpdated = None,
      sent = []\<rparr>"

section \<open>JavaScript primitives used by the panel\<close>

text \<open>\<open>r.ok\<close>: the status is in the range 200 to 299.\<close>

definition ok :: "nat \<Rightarrow> bool" where
  "ok st = (200 \<le> st \<and> st \<le> 299)"

text \<open>A number inside a template literal, \<open>`${r.status}`\<close>: its decimal digits.\<close>

definition digit_char :: "nat \<Rightarrow> char" where
  "digit_char d = char_of (48 + d)"

fun show_nat :: "nat \<Rightarrow> string" where
  "show_nat n = (if n < 10 then [digit_char n] else show_nat (n div 10) @ [digit_char (n mod 10)])"

declare show_nat.simps [simp del]

text \<open>
  \<open>String(e?.message || e)\<close>: the message when it is a non-empty (truthy) string, and
  otherwise \<open>String(e)\<close>, which for an \<open>Error\<close> with an empty message is its name.
\<close>

definition err_text :: "js_error \<Rightarrow> string" where
  "err_text e = (if err_message e \<noteq> [] then err_message e else err_name e)"

text \<open>
  Own-property lookup in a parsed object; \<open>JSON.parse\<close> keeps the last of duplicate keys.
\<close>

definition obj_get :: "(string \<times> json) list \<Rightarrow> string \<Rightarrow> json option" where
  "obj_get fs k = map_of (rev fs) k"

text \<open>
  The property read \<open>j.k\<close> for the two names the panel reads, \<open>rows\<close> and \<open>action\<close>
  (neither is defined on a built-in prototype). On \<open>null\<close> the read throws a
  \<open>TypeError\<close> (the message text is the engine's; V8's is used). On any other
  non-object the result is \<open>undefined\<close>, written \<open>None\<close>.
\<close>

fun get_prop :: "json \<Rightarrow> string \<Rightarrow> js_error + json option" where
  "get_prop JNull k =
     Inl (JsError ''TypeError''
            (''Cannot read properties of null (reading '' @ [CHR 0x27] @ k @ [CHR 0x27] @ '')''))"
| "get_prop (JObj fs) k = Inr (obj_get fs k)"
| "get_prop _ k = Inr None"

text \<open>
  \<open>JSON.stringify\<close> of an object literal whose property values are parsed JSON values or
  \<open>undefined\<close>: a property whose value is \<open>undefined\<close> is left out. The request body is
  recorded as the JSON value that the serialised text denotes.
\<close>

definition json_stringify :: "(string \<times> json option) list \<Rightarrow> json" where
  "json_stringify fs = JObj (concat (map (\<lambda>(k, v). case v of None \<Rightarrow> [] | Some j \<Rightarrow> [(k, j)]) fs))"

section \<open>Transport\<close>

text \<open>
  \<open>fetchJSON(url, init)\<close> copies the caller's headers and sets the three cache-defeating
  ones before calling \<open>fetch\<close>. The URL is kept in parts; query values are recorded as
  given (before \<open>encodeURIComponent\<close>).
\<close>

definition fetchJSON :: "request \<Rightarrow> request" where
  "fetchJSON r =
     r\<lparr>headers :=
         AList.update ''Expires'' ''0''
           (AList.update ''Pragma'' ''no-cache''
             (AList.update ''Cache-Control'' ''no-store'' (headers r)))\<rparr>"

definition send :: "request \<Rightarrow> panel \<Rightarrow> panel" where
  "send r s = s\<lparr>sent := sent s @ [fetchJSON r]\<rparr>"

section \<open>Synchronization engine: \<open>refresh\<close>\<close>

definition table_request :: "config \<Rightarrow> nat \<Rightarrow> request" where
  "table_request cfg bust =
     \<lparr>meth = ''GET'', base = api cfg, path = ''/q/table'',
      query = [(''user'', userId cfg), (''_'', show_nat bust)], headers = [], body = None\<rparr>"

text \<open>
  The part of the \<open>try\<close> block after \<open>await fetchJSON(...)\<close>: either a value is thrown, or
  the rows to display are obtained (\<open>Array.isArray(j.rows) ? j.rows : []\<close>).
\<close>

definition table_outcome :: "fetch_result \<Rightarrow> js_error + json list" where
  "table_outcome res =
     (case res of
        Rejected e \<Rightarrow> Inl e
      | Responded st b \<Rightarrow>
          if \<not> ok st then Inl (JsError ''Error'' (''GET /q/table HTTP '' @ show_nat st))
          else (case b of
                  Inl e \<Rightarrow> Inl e
                | Inr j \<Rightarrow>
                    (case get_prop j ''rows'' of
                       Inl e \<Rightarrow> Inl e
                     | Inr (Some (JArr xs)) \<Rightarrow> Inr xs
                     | Inr _ \<Rightarrow> Inr [])))"

text \<open>\<open>refresh()\<close> up to its first \<open>await\<close>; \<open>bust\<close> is the reading of \<open>Date.now()\<close>.\<close>

definition refresh_begin :: "config \<Rightarrow> nat \<Rightarrow> panel \<Rightarrow> panel" where
  "refresh_begin cfg bust s = send (table_request cfg bust) (s\<lparr>error := [], refreshing := True\<rparr>)"

text \<open>
  \<open>refresh()\<close> from the moment the awaited request settles: the rest of \<open>try\<close>, then
  \<open>catch\<close>, then \<open>finally\<close>. \<open>now\<close> is the second reading of \<open>Date.now()\<close>.
\<close>

definition refresh_settle :: "fetch_result \<Rightarrow> nat \<Rightarrow> panel \<Rightarrow> panel" where
  "refresh_settle res now s =
     (case table_outcome res of
        Inl e \<Rightarrow> s\<lparr>error := err_text e\<rparr>
      | Inr xs \<Rightarrow> s\<lparr>rows := xs, lastUpdated := Some now\<rparr>)\<lparr>refreshing := False\<rparr>"

definition refresh :: "config \<Rightarrow> nat \<Rightarrow> fetch_result \<Rightarrow> nat \<Rightarrow> panel \<Rightarrow> panel" where
  "refresh cfg bust res now s = refresh_settle res now (refresh_begin cfg bust s)"

text \<open>Consecutive calls of \<open>refresh()\<close>, each run to completion before the next starts.\<close>

fun refresh_seq :: "config \<Rightarrow> (nat \<times> fetch_result \<times> nat) list \<Rightarrow> panel \<Rightarrow> panel" where
  "refresh_seq cfg [] s = s"
| "refresh_seq cfg ((bust, res, now) # cs) s = refresh_seq cfg cs (refresh cfg bust res now s)"

section \<open>Action orchestrator: \<open>demoStep\<close>\<close>

text \<open>The composed state \<open>{ difficulty: 2, enemies: 1, timeMult: 1, recentSR: ... }\<close>.\<close>

definition demo_state_fields :: "bool \<Rightarrow> (string \<times> json) list" where
  "demo_state_fields success =
     [(''difficulty'', JNum 2), (''enemies'', JNum 1), (''timeMult'', JNum 1),
      (''recentSR'', JNum (if success then 7 / 10 else 3 / 10))]"

definition demo_state :: "bool \<Rightarrow> json" where
  "demo_state success = JObj (demo_state_fields success)"

text \<open>\<open>{ ...state, recentSR: success ? 0.75 : 0.25 }\<close>: the spread, then the override.\<close>

definition next_state :: "bool \<Rightarrow> json" where
  "next_state success =
     JObj (AList.update ''recentSR'' (JNum (if success then 3 / 4 else 1 / 4))
            (demo_state_fields success))"

definition reward :: "bool \<Rightarrow> rat" where
  "reward success = (if success then 1 else - 1)"

definition choose_request :: "config \<Rightarrow> bool \<Rightarrow> request" where
  "choose_request cfg success =
     \<lparr>meth = ''POST'', base = api cfg, path = ''/q/choose'',
      query = [(''user'', userId cfg)],
      headers = [(''Content-Type'', ''application/json'')],
      body = Some (json_stringify [(''state'', Some (demo_state success))])\<rparr>"

text \<open>
  From the settled choose request to \<open>const action: number = choose.action\<close>. The
  annotation is erased at run time: \<open>action\<close> is whatever the property read gives,
  \<open>undefined\<close> (\<open>None\<close>) included.
\<close>

definition choose_outcome :: "fetch_result \<Rightarrow> js_error + json option" where
  "choose_outcome res =
     (case res of
        Rejected e \<Rightarrow> Inl e
      | Responded st b \<Rightarrow>
          if \<not> ok st then Inl (JsError ''Error'' (''POST /q/choose HTTP '' @ show_nat st))
          else (case b of
                  Inl e \<Rightarrow> Inl e
                | Inr j \<Rightarrow> get_prop j ''action''))"

definition update_request :: "config \<Rightarrow> bool \<Rightarrow> json option \<Rightarrow> request" where
  "update_request cfg success action =
     \<lparr>meth = ''POST'', base = api cfg, path = ''/q/update'',
      query = [(''user'', userId cfg)],
      headers = [(''Content-Type'', ''application/json'')],
      body = Some (json_stringify
               [(''state'', Some (demo_state success)),
                (''action'', action),
                (''reward'', Some (JNum (reward success))),
                (''next_state'', Some (next_state success)),
                (''done'', Some (JBool False))])\<rparr>"

text \<open>The update response is only tested for \<open>ok\<close>; its body is never read.\<close>

definition update_outcome :: "fetch_result \<Rightarrow> js_error + unit" where
  "update_outcome res =
     (case res of
        Rejected e \<Rightarrow> Inl e
      | Responded st b \<Rightarrow>
          if \<not> ok st then Inl (JsError ''Error'' (''POST /q/update HTTP '' @ show_nat st))
          else Inr ())"

text \<open>\<open>demoStep(success)\<close> up to its first \<open>await\<close>.\<close>

definition demo_begin :: "config \<Rightarrow> bool \<Rightarrow> panel \<Rightarrow> panel" where
  "demo_begin cfg success s =
     send (choose_request cfg success) (s\<lparr>busyDemo := True, error := []\<rparr>)"

text \<open>The \<open>catch\<close> block of \<open>demoStep\<close> followed by its \<open>finally\<close>.\<close>

definition demo_fail :: "js_error \<Rightarrow> panel \<Rightarrow> panel" where
  "demo_fail e s = s\<lparr>error := err_text e, busyDemo := False\<rparr>"

text \<open>
  The three resumptions of \<open>demoStep\<close>; the flag tells whether the function is still
  running (suspended at its next \<open>await\<close>) afterwards.
\<close>

definition demo_choose_settle :: "config \<Rightarrow> bool \<Rightarrow> fetch_result \<Rightarrow> panel \<Rightarrow> panel \<times> bool" where
  "demo_choose_settle cfg success res s =
     (case choose_outcome res of
        Inl e \<Rightarrow> (demo_fail e s, False)
      | Inr action \<Rightarrow> (send (update_request cfg success action) s, True))"

definition demo_update_settle :: "config \<Rightarrow> fetch_result \<Rightarrow> nat \<Rightarrow> panel \<Rightarrow> panel \<times> bool" where
  "demo_update_settle cfg res bust s =
     (case update_outcome res of
        Inl e \<Rightarrow> (demo_fail e s, False)
      | Inr _ \<Rightarrow> (refresh_begin cfg bust s, True))"

text \<open>\<open>await refresh()\<close> returns (it never throws), then \<open>finally\<close> runs.\<close>

definition demo_refresh_settle :: "fetch_result \<Rightarrow> nat \<Rightarrow> panel \<Rightarrow> panel" where
  "demo_refresh_settle res now s = (refresh_settle res now s)\<lparr>busyDemo := False\<rparr>"

text \<open>
  One whole call of \<open>demoStep(success)\<close>, given how the choose request, the update
  request and the table request settle (the later ones are not looked at when the
  sequence has stopped before).
\<close>

definition demoStep ::
  "config \<Rightarrow> bool \<Rightarrow> fetch_result \<Rightarrow> fetch_result \<Rightarrow> nat \<Rightarrow> fetch_result \<Rightarrow> nat \<Rightarrow> panel \<Rightarrow> panel" where
  "demoStep cfg success cres ures bust tres now s =
     (case demo_choose_settle cfg success cres (demo_begin cfg success s) of
        (s2, False) \<Rightarrow> s2
      | (s2, True) \<Rightarrow>
          (case demo_update_settle cfg ures bust s2 of
             (s3, False) \<Rightarrow> s3
           | (s3, True) \<Rightarrow> demo_refresh_settle tres now s3))"

section \<open>Session lifecycle: the reset effect\<close>

definition reset_request :: "config \<Rightarrow> request" where
  "reset_request cfg =
     \<lparr>meth = ''POST'', base = api cfg, path = ''/reset'',
      query = [(''user'', userId cfg)], headers = [], body = None\<rparr>"

definition reset_begin :: "config \<Rightarrow> panel \<Rightarrow> panel" where
  "reset_begin cfg s = send (reset_request cfg) s"

text \<open>
  The effect after \<open>await fetchJSON(...)\<close>: the response is not inspected, so every
  resolved request reaches \<open>setRows([])\<close> and \<open>setLastUpdated(Date.now())\<close>; only a
  rejected one reaches the \<open>catch\<close>, which writes to the console and nothing else.
\<close>

definition reset_settle :: "fetch_result \<Rightarrow> nat \<Rightarrow> panel \<Rightarrow> panel" where
  "reset_settle res now s =
     (case res of
        Rejected e \<Rightarrow> s
      | Responded st b \<Rightarrow> s\<lparr>rows := [], lastUpdated := Some now\<rparr>)"

definition reset :: "config \<Rightarrow> fetch_result \<Rightarrow> nat \<Rightarrow> panel \<Rightarrow> panel" where
  "reset cfg res now s = reset_settle res now (reset_begin cfg s)"

section \<open>Interaction surface\<close>

record key_event =
  key :: string
  ctrlKey :: bool
  metaKey :: bool
  altKey :: bool
  shiftKey :: bool

text \<open>\<open>toLowerCase()\<close> on the ASCII letters.\<close>

definition lower_char :: "char \<Rightarrow> char" where
  "lower_char c =
     (if 65 \<le> (of_char c :: nat) \<and> (of_char c :: nat) \<le> 90 then char_of (of_char c + 32 :: nat) else c)"

definition toLowerCase :: "string \<Rightarrow> string" where
  "toLowerCase s = map lower_char s"

text \<open>The condition under which \<open>onKey\<close> calls \<open>refresh()\<close>.\<close>

definition onKey_fires :: "key_event \<Rightarrow> bool" where
  "onKey_fires e = (toLowerCase (key e) = ''r'' \<and> \<not> ctrlKey e \<and> \<not> metaKey e \<and> \<not> altKey e)"

text \<open>The \<open>disabled\<close> attribute shared by the three buttons.\<close>

definition buttons_disabled :: "panel \<Rightarrow> bool" where
  "buttons_disabled s = (busyDemo s \<or> refreshing s)"

section \<open>The running component\<close>

text \<open>
  An \<open>async\<close> call suspended at an \<open>await\<close>, waiting for its request to settle. A call of
  \<open>demoStep\<close> keeps the props of the render that created it; a table request remembers
  whether \<open>refresh()\<close> was called from \<open>demoStep\<close>.
\<close>

datatype task =
    AwaitReset
  | AwaitTable bool
  | AwaitChoose config bool
  | AwaitUpdate config

datatype event =
    ClickRefresh
  | ClickDemo bool
  | KeyDown key_event
  | PropsChange config
  | Settle nat fetch_result

text \<open>
  The component between events: its state, the current props, the props of the first
  render (the key listener is installed once, with dependency list \<open>[]\<close>, and keeps
  calling that render's \<open>refresh\<close>), and the suspended calls.
\<close>

record runtime =
  ui :: panel
  props :: config
  mounted :: config
  pending :: "task list"

definition start_refresh :: "config \<Rightarrow> nat \<Rightarrow> runtime \<Rightarrow> runtime" where
  "start_refresh cfg t w =
     w\<lparr>ui := refresh_begin cfg t (ui w), pending := pending w @ [AwaitTable False]\<rparr>"

text \<open>The two effects with dependencies \<open>[API, userId]\<close>, in source order.\<close>

definition run_effects :: "config \<Rightarrow> nat \<Rightarrow> runtime \<Rightarrow> runtime" where
  "run_effects cfg t w =
     start_refresh cfg t (w\<lparr>ui := reset_begin cfg (ui w), pending := pending w @ [AwaitReset]\<rparr>)"

definition mount :: "config \<Rightarrow> nat \<Rightarrow> runtime" where
  "mount cfg t =
     run_effects cfg t \<lparr>ui = initial_panel, props = cfg, mounted = cfg, pending = []\<rparr>"

text \<open>Resuming a suspended call with the result of its request at time \<open>t\<close>.\<close>

fun resume :: "task \<Rightarrow> fetch_result \<Rightarrow> nat \<Rightarrow> runtime \<Rightarrow> runtime" where
  "resume AwaitReset res t w = w\<lparr>ui := reset_settle res t (ui w)\<rparr>"
| "resume (AwaitTable in_demo) res t w =
     w\<lparr>ui := (if in_demo then demo_refresh_settle res t (ui w) else refresh_settle res t (ui w))\<rparr>"
| "resume (AwaitChoose cfg success) res t w =
     (case demo_choose_settle cfg success res (ui w) of
        (s, go) \<Rightarrow> w\<lparr>ui := s, pending := pending w @ (if go then [AwaitUpdate cfg] else [])\<rparr>)"
| "resume (AwaitUpdate cfg) res t w =
     (case demo_update_settle cfg res t (ui w) of
        (s, go) \<Rightarrow> w\<lparr>ui := s, pending := pending w @ (if go then [AwaitTable True] else [])\<rparr>)"

text \<open>
  One event at time \<open>t\<close>. A disabled button dispatches no click, and the demo buttons
  exist only with \<open>showDemoControls\<close>. The key listener tests nothing but the key and
  three modifiers.
\<close>

fun step :: "event \<Rightarrow> nat \<Rightarrow> runtime \<Rightarrow> runtime" where
  "step ClickRefresh t w =
     (if buttons_disabled (ui w) then w else start_refresh (props w) t w)"
| "step (ClickDemo success) t w =
     (if showDemoControls (props w) \<and> \<not> buttons_disabled (ui w)
      then w\<lparr>ui := demo_begin (props w) success (ui w),
             pending := pending w @ [AwaitChoose (props w) success]\<rparr>
      else w)"
| "step (KeyDown e) t w =
     (if onKey_fires e then start_refresh (mounted w) t w else w)"
| "step (PropsChange cfg) t w =
     (if api cfg = api (props w) \<and> userId cfg = userId (props w) then w\<lparr>props := cfg\<rparr>
      else run_effects cfg t (w\<lparr>props := cfg\<rparr>))"
| "step (Settle i res) t w =
     (if i < length (pending w)
      then resume (pending w ! i) res t (w\<lparr>pending := take i (pending w) @ drop (Suc i) (pending w)\<rparr>)
      else w)"

fun run :: "(event \<times> nat) list \<Rightarrow> runtime \<Rightarrow> runtime" where
  "run [] w = w"
| "run ((ev, t) # evs) w = run evs (step ev t w)"

text \<open>The calls of \<open>refresh\<close> and \<open>demoStep\<close> that are under way.\<close>

definition in_flight :: "runtime \<Rightarrow> nat" where
  "in_flight w = length (filter (\<lambda>k. k \<noteq> AwaitReset) (pending w))"

section \<open>Evaluation facts and basic properties\<close>

lemma show_nat_500: "show_nat 500 = ''500''"
  by code_simp

lemma toLowerCase_R: "toLowerCase ''R'' = ''r''"
  by code_simp

lemma refresh_sent:
  "sent (refresh cfg bust res now s) = sent s @ [fetchJSON (table_request cfg bust)]"
  by (simp add: refresh_def refresh_settle_def refresh_begin_def send_def split: sum.splits)

lemma refresh_success_rows:
  "table_outcome res = Inr xs \<Longrightarrow> rows (refresh cfg bust res now s) = xs"
  by (simp add: refresh_def refresh_settle_def)

lemma refresh_failure_rows:
  "table_outcome res = Inl e \<Longrightarrow> rows (refresh cfg bust res now s) = rows s"
  by (simp add: refresh_def refresh_settle_def refresh_begin_def send_def)

text \<open>
  The executions of \<open>refresh()\<close> that throw inside \<open>try\<close>: no response, a status outside
  200..299, a body that is not JSON, and the body \<open>null\<close>.
\<close>

lemma table_outcome_fails_iff:
  "table_outcome res = Inl e \<longleftrightarrow>
     res = Rejected e
   \<or> (\<exists>st b. res = Responded st b \<and> \<not> ok st
          \<and> e = JsError ''Error'' (''GET /q/table HTTP '' @ show_nat st))
   \<or> (\<exists>st. res = Responded st (Inl e) \<and> ok st)
   \<or> (\<exists>st. res = Responded st (Inr JNull) \<and> ok st \<and> get_prop JNull ''rows'' = Inl e)"
proof (cases res)
  case (Rejected x)
  then show ?thesis by (auto simp: table_outcome_def)
next
  case (Responded st b)
  show ?thesis
  proof (cases b)
    case (Inl x)
    with Responded show ?thesis by (auto simp: table_outcome_def)
  next
    case (Inr j)
    with Responded show ?thesis
      by (cases j) (auto simp: table_outcome_def split: option.splits json.splits)
  qed
qed

lemma refresh_seq_rows:
  "rows (refresh_seq cfg cs s) =
     last (rows s # [xs. (bust, res, now) \<leftarrow> cs, Inr xs \<leftarrow> [table_outcome res]])"
proof (induction cs arbitrary: s)
  case Nil
  then show ?case by simp
next
  case (Cons c cs)
  obtain bust res now where c: "c = (bust, res, now)" by (cases c) auto
  show ?case
  proof (cases "table_outcome res")
    case (Inl e)
    then show ?thesis using Cons.IH c by (simp add: refresh_failure_rows)
  next
    case (Inr xs)
    then show ?thesis using Cons.IH c by (simp add: refresh_success_rows)
  qed
qed

text \<open>
  A body other than \<open>null\<close> that has no array under \<open>rows\<close> gives the empty table and no
  error.
\<close>

lemma refresh_malformed_nonnull:
  assumes "ok st" and "j \<noteq> JNull"
    and "\<forall>fs xs. j = JObj fs \<longrightarrow> obj_get fs ''rows'' \<noteq> Some (JArr xs)"
  shows "rows (refresh cfg bust (Responded st (Inr j)) now s) = []
       \<and> error (refresh cfg bust (Responded st (Inr j)) now s) = []"
  using assms
  by (cases j)
     (auto simp add: refresh_def refresh_settle_def refresh_begin_def send_def table_outcome_def
        split: sum.splits option.splits json.splits)

lemma demoStep_sent_after_choose:
  "choose_outcome cres = Inr act \<Longrightarrow>
   take 2 (drop (length (sent s)) (sent (demoStep cfg b cres ures bust tres now s)))
     = [fetchJSON (choose_request cfg b), fetchJSON (update_request cfg b act)]"
  by (simp add: demoStep_def demo_choose_settle_def demo_update_settle_def demo_refresh_settle_def
      demo_fail_def demo_begin_def send_def refresh_settle_def refresh_begin_def
      split: sum.splits prod.splits bool.splits)

lemma choose_outcome_nonnull:
  "ok st \<Longrightarrow> j \<noteq> JNull \<Longrightarrow>
   choose_outcome (Responded st (Inr j))
     = Inr (case j of JObj fs \<Rightarrow> obj_get fs ''action'' | _ \<Rightarrow> None)"
  by (cases j) (simp_all add: choose_outcome_def)

text \<open>The buttons are inert while either flag is set; the key listener is not.\<close>

lemma buttons_gated:
  "buttons_disabled (ui w) \<Longrightarrow> step ClickRefresh t w = w \<and> step (ClickDemo b) t w = w"
  by simp

lemma key_not_gated:
  "onKey_fires e \<Longrightarrow> in_flight (step (KeyDown e) t w) = Suc (in_flight w)"
  by (simp add: in_flight_def start_refresh_def)

lemma reset_rejected_changes_nothing: "reset_settle (Rejected e) now s = s"
  by (simp add: reset_settle_def)

lemma reset_responded_any_status:
  "rows (reset_settle (Responded st b) now s) = []
   \<and> lastUpdated (reset_settle (Responded st b) now s) = Some now"
  by (simp add: reset_settle_def)

lemma mount_lastUpdated: "lastUpdated (ui (mount cfg t)) = None"
  by (simp add: mount_def run_effects_def start_refresh_def refresh_begin_def reset_begin_def
      send_def initial_panel_def)

lemma resume_lastUpdated:
  "lastUpdated (ui (resume k res t w)) \<noteq> lastUpdated (ui w) \<Longrightarrow>
     lastUpdated (ui (resume k res t w)) = Some t \<and>
     ((\<exists>d xs. k = AwaitTable d \<and> table_outcome res = Inr xs)
      \<or> (\<exists>st b. k = AwaitReset \<and> res = Responded st b))"
  by (cases k)
     (auto simp add: reset_settle_def refresh_settle_def demo_refresh_settle_def
        demo_choose_settle_def demo_update_settle_def demo_fail_def send_def refresh_begin_def
        split: sum.splits fetch_result.splits if_splits)

lemma step_lastUpdated:
  assumes ch: "lastUpdated (ui (step ev t w)) \<noteq> lastUpdated (ui w)"
  shows "lastUpdated (ui (step ev t w)) = Some t \<and>
      (\<exists>i res. ev = Settle i res \<and> i < length (pending w) \<and>
         ((\<exists>d xs. pending w ! i = AwaitTable d \<and> table_outcome res = Inr xs)
          \<or> (\<exists>st b. pending w ! i = AwaitReset \<and> res = Responded st b)))"
proof (cases ev)
  case ClickRefresh
  with ch show ?thesis
    by (simp add: start_refresh_def refresh_begin_def send_def split: if_splits)
next
  case (ClickDemo b)
  with ch show ?thesis by (simp add: demo_begin_def send_def split: if_splits)
next
  case (KeyDown e)
  with ch show ?thesis
    by (simp add: start_refresh_def refresh_begin_def send_def split: if_splits)
next
  case (PropsChange c)
  with ch show ?thesis
    by (simp add: run_effects_def start_refresh_def refresh_begin_def reset_begin_def send_def
        split: if_splits)
next
  case (Settle i res)
  show ?thesis
  proof (cases "i < length (pending w)")
    case True
    let ?w = "w\<lparr>pending := take i (pending w) @ drop (Suc i) (pending w)\<rparr>"
    have st: "step ev t w = resume (pending w ! i) res t ?w" using Settle True by simp
    have "lastUpdated (ui (resume (pending w ! i) res t ?w)) \<noteq> lastUpdated (ui ?w)"
      using ch st by simp
    from resume_lastUpdated [OF this] st Settle True show ?thesis by auto
  next
    case False
    with ch Settle show ?thesis by simp
  qed
qed

text \<open>
  The event-driven component and the whole-call functions agree: a click on an enabled
  button followed by the settling of each request in turn is one call of \<open>refresh\<close>,
  respectively of \<open>demoStep\<close> (once the call has stopped, nothing is left to settle).
\<close>

lemma run_click_refresh:
  assumes "pending w = []" and "\<not> buttons_disabled (ui w)"
  shows "ui (run [(ClickRefresh, bust), (Settle 0 res, now)] w)
           = refresh (props w) bust res now (ui w)"
  using assms by (simp add: start_refresh_def refresh_def)

lemma run_click_demo:
  assumes "pending w = []" and "\<not> buttons_disabled (ui w)" and "showDemoControls (props w)"
  shows "ui (run [(ClickDemo b, t), (Settle 0 cres, t'), (Settle 0 ures, bust),
                  (Settle 0 tres, now)] w)
           = demoStep (props w) b cres ures bust tres now (ui w)"
  using assms by (simp add: demoStep_def split: prod.splits bool.splits)

text \<open>
  The end-to-end scenario: user \<open>alice\<close>, the service answers the choose request with
  action 3, accepts the update and returns one row; that row is what is displayed.
\<close>

lemma demoStep_end_to_end:
  "rows (demoStep (default_props\<lparr>userId := ''alice''\<rparr>) True
           (Responded 200 (Inr (JObj [(''action'', JNum 3)])))
           (Responded 200 (Inr (JObj [])))
           1
           (Responded 200 (Inr (JObj [(''rows'',
              JArr [JObj [(''state'', JStr ''s1''), (''action'', JNum 3),
                          (''actionParams'', JObj [(''difficulty'', JNum 2), (''enemies'', JNum 1),
                                                   (''timeMult'', JNum 1)]),
                          (''Q'', JNum (21 / 50))]])])))
           2 initial_panel)
     = [JObj [(''state'', JStr ''s1''), (''action'', JNum 3),
              (''actionParams'', JObj [(''difficulty'', JNum 2), (''enemies'', JNum 1),
                                       (''timeMult'', JNum 1)]),
              (''Q'', JNum (21 / 50))]]
   \<and> map path (sent (demoStep (default_props\<lparr>userId := ''alice''\<rparr>) True
           (Responded 200 (Inr (JObj [(''action'', JNum 3)])))
           (Responded 200 (Inr (JObj [])))
           1
           (Responded 200 (Inr (JObj [(''rows'',
              JArr [JObj [(''state'', JStr ''s1''), (''action'', JNum 3),
                          (''actionParams'', JObj [(''difficulty'', JNum 2), (''enemies'', JNum 1),
                                                   (''timeMult'', JNum 1)]),
                          (''Q'', JNum (21 / 50))]])])))
           2 initial_panel))
     = [''/q/choose'', ''/q/update'', ''/q/table'']"
  by (simp add: demoStep_def demo_choose_settle_def demo_update_settle_def demo_refresh_settle_def
      demo_begin_def send_def refresh_settle_def refresh_begin_def choose_outcome_def
      update_outcome_def table_outcome_def ok_def obj_get_def initial_panel_def default_props_def
      choose_request_def update_request_def table_request_def fetchJSON_def)

section \<open>Busy gate\<close>

text \<open>
  Claim C1: every trigger for a refresh or a demo step, the keyboard shortcut included,
  is behind the same busy gate, so that nothing new starts while \<open>busyDemo\<close> or
  \<open>refreshing\<close> is set and at most one call is under way.

  The buttons are gated (lemma \<open>buttons_gated\<close>); \<open>onKey\<close> calls \<open>refresh()\<close> without
  looking at either flag (lemma \<open>key_not_gated\<close>). Evaluated on the freshly mounted
  component, whose initial refresh is still under way: the Refresh button does nothing,
  the key \<open>r\<close> starts a second refresh and a second table request goes out.
\<close>

theorem keyboard_refresh_bypasses_busy_gate:
  "refreshing (ui (mount default_props 0))
   \<and> in_flight (mount default_props 0) = 1
   \<and> step ClickRefresh 1 (mount default_props 0) = mount default_props 0
   \<and> in_flight (step (KeyDown \<lparr>key = ''r'', ctrlKey = False, metaKey = False, altKey = False,
                                shiftKey = False\<rparr>) 1 (mount default_props 0)) = 2
   \<and> map path (sent (ui (step (KeyDown \<lparr>key = ''r'', ctrlKey = False, metaKey = False,
                                altKey = False, shiftKey = False\<rparr>) 1 (mount default_props 0))))
       = [''/reset'', ''/q/table'', ''/q/table'']"
  by (simp add: mount_def run_effects_def start_refresh_def refresh_begin_def reset_begin_def
      send_def fetchJSON_def in_flight_def initial_panel_def buttons_disabled_def onKey_fires_def
      toLowerCase_def lower_char_def table_request_def reset_request_def)

section \<open>Refresh\<close>

text \<open>
  Claim C2, as stated: on every failing \<open>refresh()\<close> the error cell is set to the
  failure's message. It fails when the thrown value carries an empty message: the
  fallback in \<open>String(e?.message || e)\<close> then shows the error's name.
\<close>

theorem refresh_empty_message_shows_name:
  "err_message (JsError ''TypeError'' []) = []
   \<and> error (refresh default_props 1 (Rejected (JsError ''TypeError'' [])) 2 initial_panel)
       = ''TypeError''"
  by (simp add: refresh_def refresh_settle_def refresh_begin_def send_def table_outcome_def
      err_text_def initial_panel_def)

text \<open>
  Claim C2, amended: for every failing execution of \<open>refresh()\<close>, that is a network error
  (the request is rejected with \<open>e\<close>), a status outside 200..299, or a 2xx body that
  does not parse (\<open>r.json()\<close> rejects with \<open>e\<close>), the error cell is set to that failure's
  message, or to its name when the message is empty; for a non-2xx status the message
  is \<open>GET /q/table HTTP\<close> followed by the status. The previously displayed rows are left
  exactly unchanged, and \<open>refreshing\<close> is false on exit whatever the outcome.
\<close>

theorem refresh_failure_sets_error_keeps_rows:
  "error (refresh cfg bust (Rejected e) now s)
       = (if err_message e = [] then err_name e else err_message e)
   \<and> rows (refresh cfg bust (Rejected e) now s) = rows s
   \<and> (\<not> ok st \<longrightarrow>
        error (refresh cfg bust (Responded st b) now s) = ''GET /q/table HTTP '' @ show_nat st
      \<and> rows (refresh cfg bust (Responded st b) now s) = rows s)
   \<and> (ok st' \<longrightarrow>
        error (refresh cfg bust (Responded st' (Inl e)) now s)
          = (if err_message e = [] then err_name e else err_message e)
      \<and> rows (refresh cfg bust (Responded st' (Inl e)) now s) = rows s)
   \<and> \<not> refreshing (refresh cfg bust res now s)"
proof -
  have rej: "table_outcome (Rejected e) = Inl e"
    by (simp add: table_outcome_def)
  have bad: "\<not> ok st \<Longrightarrow>
      table_outcome (Responded st b) = Inl (JsError ''Error'' (''GET /q/table HTTP '' @ show_nat st))"
    by (simp add: table_outcome_def)
  have unp: "ok st' \<Longrightarrow> table_outcome (Responded st' (Inl e)) = Inl e"
    by (simp add: table_outcome_def)
  have err: "\<And>r x. table_outcome r = Inl x \<Longrightarrow>
      error (refresh cfg bust r now s) = (if err_message x = [] then err_name x else err_message x)
      \<and> rows (refresh cfg bust r now s) = rows s"
    by (simp add: refresh_def refresh_settle_def refresh_begin_def send_def err_text_def)
  have fin: "\<not> refreshing (refresh cfg bust res now s)"
    by (simp add: refresh_def refresh_settle_def split: sum.splits)
  from err [OF rej] have c1: "error (refresh cfg bust (Rejected e) now s)
       = (if err_message e = [] then err_name e else err_message e)
     \<and> rows (refresh cfg bust (Rejected e) now s) = rows s" .
  have c2: "\<not> ok st \<longrightarrow>
        error (refresh cfg bust (Responded st b) now s) = ''GET /q/table HTTP '' @ show_nat st
      \<and> rows (refresh cfg bust (Responded st b) now s) = rows s"
  proof
    assume "\<not> ok st"
    from err [OF bad [OF this]]
    show "error (refresh cfg bust (Responded st b) now s) = ''GET /q/table HTTP '' @ show_nat st
      \<and> rows (refresh cfg bust (Responded st b) now s) = rows s"
      by simp
  qed
  have c3: "ok st' \<longrightarrow>
        error (refresh cfg bust (Responded st' (Inl e)) now s)
          = (if err_message e = [] then err_name e else err_message e)
      \<and> rows (refresh cfg bust (Responded st' (Inl e)) now s) = rows s"
    using err [OF unp] by blast
  from c1 c2 c3 fin show ?thesis by blast
qed

theorem refresh_failure_sets_error_keeps_rows_witness:
  "\<not> ok 500 \<and> ok 200
   \<and> error (refresh default_props 1 (Rejected (JsError ''TypeError'' ''Failed to fetch'')) 2
        (initial_panel\<lparr>rows := [JObj [(''state'', JStr ''s1'')]]\<rparr>)) = ''Failed to fetch''
   \<and> rows (refresh default_props 1 (Rejected (JsError ''TypeError'' ''Failed to fetch'')) 2
        (initial_panel\<lparr>rows := [JObj [(''state'', JStr ''s1'')]]\<rparr>))
       = [JObj [(''state'', JStr ''s1'')]]
   \<and> error (refresh default_props 1 (Responded 500 (Inr (JObj []))) 2
        (initial_panel\<lparr>rows := [JObj [(''state'', JStr ''s1'')]]\<rparr>)) = ''GET /q/table HTTP 500''
   \<and> rows (refresh default_props 1 (Responded 500 (Inr (JObj []))) 2
        (initial_panel\<lparr>rows := [JObj [(''state'', JStr ''s1'')]]\<rparr>))
       = [JObj [(''state'', JStr ''s1'')]]
   \<and> error (refresh default_props 1
        (Responded 200 (Inl (JsError ''TypeError'' ''Failed to fetch''))) 2
        (initial_panel\<lparr>rows := [JObj [(''state'', JStr ''s1'')]]\<rparr>)) = ''Failed to fetch''
   \<and> rows (refresh default_props 1
        (Responded 200 (Inl (JsError ''TypeError'' ''Failed to fetch''))) 2
        (initial_panel\<lparr>rows := [JObj [(''state'', JStr ''s1'')]]\<rparr>))
       = [JObj [(''state'', JStr ''s1'')]]
   \<and> \<not> refreshing (refresh default_props 1 (Responded 200 (Inr (JObj []))) 2
        (initial_panel\<lparr>rows := [JObj [(''state'', JStr ''s1'')]]\<rparr>))"
proof -
  have k: "\<not> ok 500" "ok 200" by (simp_all add: ok_def)
  from refresh_failure_sets_error_keeps_rows [where cfg = default_props and bust = 1
      and e = "JsError ''TypeError'' ''Failed to fetch''" and now = 2
      and s = "initial_panel\<lparr>rows := [JObj [(''state'', JStr ''s1'')]]\<rparr>"
      and st = 500 and b = "Inr (JObj [])" and st' = 200
      and res = "Responded 200 (Inr (JObj []))"] k
  show ?thesis by (simp add: show_nat_500 initial_panel_def)
qed

text \<open>
  Claim C5: a successful \<open>refresh()\<close> puts the array under \<open>rows\<close> of that response in
  place of whatever was displayed, so after any run of consecutive refreshes the
  displayed rows are those of the latest successful response (the initial rows if none
  succeeded), never a combination of two responses.
\<close>

theorem refresh_replaces_rows:
  "(ok st \<and> obj_get fs ''rows'' = Some (JArr ys) \<longrightarrow>
      rows (refresh cfg bust (Responded st (Inr (JObj fs))) now s) = ys)
   \<and> (table_outcome res = Inr xs \<longrightarrow> rows (refresh cfg bust res now s) = xs)
   \<and> rows (refresh_seq cfg cs s) =
       last (rows s # [xs. (bust, res, now) \<leftarrow> cs, Inr xs \<leftarrow> [table_outcome res]])"
  by (simp add: refresh_seq_rows refresh_success_rows table_outcome_def)

theorem refresh_replaces_rows_witness:
  "ok 200
   \<and> obj_get [(''rows'', JArr [JStr ''r2'', JStr ''r3''])] ''rows'' = Some (JArr [JStr ''r2'', JStr ''r3''])
   \<and> table_outcome (Responded 200 (Inr (JObj [(''rows'', JArr [JStr ''r2'', JStr ''r3''])])))
       = Inr [JStr ''r2'', JStr ''r3'']
   \<and> rows (refresh default_props 3 (Responded 200 (Inr (JObj [(''rows'', JArr [JStr ''r2'', JStr ''r3''])]))) 4
        (initial_panel\<lparr>rows := [JStr ''r1'', JStr ''r2'']\<rparr>)) = [JStr ''r2'', JStr ''r3'']
   \<and> rows (refresh_seq default_props
        [(1, Responded 200 (Inr (JObj [(''rows'', JArr [JStr ''r1'', JStr ''r2''])])), 2),
         (3, Responded 200 (Inr (JObj [(''rows'', JArr [JStr ''r2'', JStr ''r3''])])), 4),
         (5, Responded 500 (Inr (JObj [])), 6)]
        initial_panel) = [JStr ''r2'', JStr ''r3'']"
  using refresh_replaces_rows [where st = 200
      and fs = "[(''rows'', JArr [JStr ''r2'', JStr ''r3''])]" and ys = "[JStr ''r2'', JStr ''r3'']"
      and cfg = default_props and bust = 3 and now = 4
      and s = "initial_panel\<lparr>rows := [JStr ''r1'', JStr ''r2'']\<rparr>"
      and res = "Responded 200 (Inr (JObj [(''rows'', JArr [JStr ''r2'', JStr ''r3''])]))"
      and xs = "[JStr ''r2'', JStr ''r3'']"]
    refresh_replaces_rows [where cfg = default_props and s = initial_panel
      and cs = "[(1, Responded 200 (Inr (JObj [(''rows'', JArr [JStr ''r1'', JStr ''r2''])])), 2),
         (3, Responded 200 (Inr (JObj [(''rows'', JArr [JStr ''r2'', JStr ''r3''])])), 4),
         (5, Responded 500 (Inr (JObj [])), 6)]"]
  by (simp add: ok_def obj_get_def table_outcome_def initial_panel_def)

text \<open>
  Claim C6: a 2xx table response whose JSON body has no \<open>rows\<close> field, or a \<open>rows\<close> that
  is not an array, makes \<open>refresh()\<close> finish with the empty table.

  That holds for every body except \<open>null\<close> (lemma \<open>refresh_malformed_nonnull\<close>). On the
  body \<open>null\<close> the read \<open>j.rows\<close> throws inside \<open>try\<close>: the table that was displayed
  stays and the error cell is set.
\<close>

theorem refresh_null_body_keeps_rows_sets_error:
  "ok 200
   \<and> rows (refresh default_props 1 (Responded 200 (Inr JNull)) 2
           (initial_panel\<lparr>rows := [JObj [(''state'', JStr ''s1'')]]\<rparr>))
       = [JObj [(''state'', JStr ''s1'')]]
   \<and> error (refresh default_props 1 (Responded 200 (Inr JNull)) 2
           (initial_panel\<lparr>rows := [JObj [(''state'', JStr ''s1'')]]\<rparr>))
       = ''Cannot read properties of null (reading 'rows')''"
  by (simp add: refresh_def refresh_settle_def refresh_begin_def send_def initial_panel_def ok_def
      table_outcome_def err_text_def)

section \<open>Session reset\<close>

text \<open>
  Claim C3: the reset clears the table and sets \<open>lastUpdated\<close> only when the request
  succeeded; on a failure, a non-2xx status included, it changes nothing.

  A rejected request changes nothing (lemma \<open>reset_rejected_changes_nothing\<close>), but the
  effect never tests \<open>ok\<close>, unlike \<open>refresh\<close> and \<open>demoStep\<close>: on a response with status
  500 a populated table is emptied and \<open>lastUpdated\<close> is overwritten.
\<close>

theorem reset_http_500_clears_table:
  "\<not> ok 500
   \<and> rows (reset default_props (Responded 500 (Inr (JObj []))) 7
           (initial_panel\<lparr>rows := [JObj [(''state'', JStr ''s1'')]], lastUpdated := Some 3\<rparr>)) = []
   \<and> lastUpdated (reset default_props (Responded 500 (Inr (JObj []))) 7
           (initial_panel\<lparr>rows := [JObj [(''state'', JStr ''s1'')]], lastUpdated := Some 3\<rparr>))
       = Some 7"
  by (simp add: reset_def reset_settle_def reset_begin_def send_def initial_panel_def ok_def)

text \<open>
  Claim C9, as stated: \<open>lastUpdated\<close> is assigned by a successful refresh only, never by
  the session reset. It fails: after mounting, the reset request being answered while
  the initial refresh is still waiting, \<open>lastUpdated\<close> holds the reset time.
\<close>

theorem reset_assigns_lastUpdated:
  "lastUpdated (ui (step (Settle 0 (Responded 200 (Inr (JObj [])))) 5 (mount default_props 0)))
     = Some 5
   \<and> pending (step (Settle 0 (Responded 200 (Inr (JObj [])))) 5 (mount default_props 0))
     = [AwaitTable False]"
  by (simp add: mount_def run_effects_def start_refresh_def reset_settle_def)

text \<open>
  Claim C9, amended: \<open>lastUpdated\<close> is null when the component mounts, and an event
  changes it only by storing the current time, when it completes a successful refresh
  (on its own or at the end of a demo step) or a successful session reset. No click, key
  press, props change or failed request assigns it. (Answers to the reset request with
  a status outside 200..299 are left aside.)
\<close>

theorem lastUpdated_assigned_only_by_refresh_or_reset:
  assumes "\<forall>i st b. ev = Settle i (Responded st b) \<and> i < length (pending w)
              \<and> pending w ! i = AwaitReset \<longrightarrow> ok st"
  shows "lastUpdated (ui (mount cfg t0)) = None \<and>
   (lastUpdated (ui (step ev t w)) \<noteq> lastUpdated (ui w) \<longrightarrow>
      lastUpdated (ui (step ev t w)) = Some t \<and>
      (\<exists>i res. ev = Settle i res \<and> i < length (pending w) \<and>
         ((\<exists>d xs. pending w ! i = AwaitTable d \<and> table_outcome res = Inr xs)
          \<or> (\<exists>st b. pending w ! i = AwaitReset \<and> res = Responded st b \<and> ok st))))"
proof (rule conjI)
  show "lastUpdated (ui (mount cfg t0)) = None" by (rule mount_lastUpdated)
next
  show "lastUpdated (ui (step ev t w)) \<noteq> lastUpdated (ui w) \<longrightarrow>
      lastUpdated (ui (step ev t w)) = Some t \<and>
      (\<exists>i res. ev = Settle i res \<and> i < length (pending w) \<and>
         ((\<exists>d xs. pending w ! i = AwaitTable d \<and> table_outcome res = Inr xs)
          \<or> (\<exists>st b. pending w ! i = AwaitReset \<and> res = Responded st b \<and> ok st)))"
  proof
    assume "lastUpdated (ui (step ev t w)) \<noteq> lastUpdated (ui w)"
    from step_lastUpdated [OF this]
    obtain i res where t: "lastUpdated (ui (step ev t w)) = Some t"
      and ev: "ev = Settle i res" and i: "i < length (pending w)"
      and k: "(\<exists>d xs. pending w ! i = AwaitTable d \<and> table_outcome res = Inr xs)
          \<or> (\<exists>st b. pending w ! i = AwaitReset \<and> res = Responded st b)"
      by blast
    from k have "(\<exists>d xs. pending w ! i = AwaitTable d \<and> table_outcome res = Inr xs)
          \<or> (\<exists>st b. pending w ! i = AwaitReset \<and> res = Responded st b \<and> ok st)"
    proof
      assume "\<exists>d xs. pending w ! i = AwaitTable d \<and> table_outcome res = Inr xs"
      then show ?thesis by (rule disjI1)
    next
      assume "\<exists>st b. pending w ! i = AwaitReset \<and> res = Responded st b"
      then obtain st b where r: "pending w ! i = AwaitReset" "res = Responded st b" by blast
      with assms ev i have "ok st" by blast
      with r show ?thesis by blast
    qed
    with t ev i
    show "lastUpdated (ui (step ev t w)) = Some t \<and>
      (\<exists>i res. ev = Settle i res \<and> i < length (pending w) \<and>
         ((\<exists>d xs. pending w ! i = AwaitTable d \<and> table_outcome res = Inr xs)
          \<or> (\<exists>st b. pending w ! i = AwaitReset \<and> res = Responded st b \<and> ok st)))"
      by blast
  qed
qed

theorem lastUpdated_assigned_only_by_refresh_or_reset_witness:
  "ok 204
   \<and> pending (mount default_props 0) ! 0 = AwaitReset
   \<and> lastUpdated (ui (mount default_props 0)) = None
   \<and> lastUpdated (ui (step (Settle 0 (Responded 204 (Inl (JsError ''SyntaxError'' ''Unexpected end of JSON input'')))) 9
                      (mount default_props 0))) = Some 9"
proof -
  let ?ev = "Settle 0 (Responded 204 (Inl (JsError ''SyntaxError'' ''Unexpected end of JSON input'')))"
  have k: "ok 204" by (simp add: ok_def)
  have p: "pending (mount default_props 0) ! 0 = AwaitReset"
    by (simp add: mount_def run_effects_def start_refresh_def)
  have h: "\<forall>i st b. ?ev = Settle i (Responded st b) \<and> i < length (pending (mount default_props 0))
              \<and> pending (mount default_props 0) ! i = AwaitReset \<longrightarrow> ok st"
    using k by simp
  have ch: "lastUpdated (ui (step ?ev 9 (mount default_props 0)))
     \<noteq> lastUpdated (ui (mount default_props 0))"
    by (simp add: mount_def run_effects_def start_refresh_def reset_settle_def
        refresh_begin_def reset_begin_def send_def initial_panel_def)
  note inst = lastUpdated_assigned_only_by_refresh_or_reset
         [OF h, where cfg = default_props and ?t0.0 = 0 and t = 9]
  from inst [THEN conjunct2, THEN mp, OF ch, THEN conjunct1] inst [THEN conjunct1] k p
  show ?thesis by simp
qed

section \<open>Demo step\<close>

text \<open>
  Claim C4: in \<open>demoStep()\<close>, a failure of the choose request (it is rejected, or answered
  with a status outside 200..299, or with a 2xx body that does not parse) makes the call
  issue the choose request and nothing else (no update, no table fetch) and puts the
  failure in the error cell. After a 2xx choose response with a JSON body other than
  \<open>null\<close>, a failure of the update request (rejected, or a status outside 200..299) makes
  the call issue the choose and the update request and no table fetch, puts the failure
  in the error cell and leaves the table and \<open>lastUpdated\<close> untouched. \<open>busyDemo\<close> is
  false when the call returns, wherever it stopped.
\<close>

theorem demoStep_short_circuit:
  "map path (drop (length (sent s)) (sent (demoStep cfg b (Rejected e) ures bust tres now s)))
       = [''/q/choose'']
   \<and> error (demoStep cfg b (Rejected e) ures bust tres now s)
       = (if err_message e = [] then err_name e else err_message e)
   \<and> (\<not> ok st \<longrightarrow>
        map path (drop (length (sent s))
                   (sent (demoStep cfg b (Responded st bd) ures bust tres now s)))
          = [''/q/choose'']
      \<and> error (demoStep cfg b (Responded st bd) ures bust tres now s)
          = ''POST /q/choose HTTP '' @ show_nat st)
   \<and> (ok st \<longrightarrow>
        map path (drop (length (sent s))
                   (sent (demoStep cfg b (Responded st (Inl e)) ures bust tres now s)))
          = [''/q/choose'']
      \<and> error (demoStep cfg b (Responded st (Inl e)) ures bust tres now s)
          = (if err_message e = [] then err_name e else err_message e))
   \<and> (ok st \<and> j \<noteq> JNull \<longrightarrow>
        map path (drop (length (sent s))
                   (sent (demoStep cfg b (Responded st (Inr j)) (Rejected e) bust tres now s)))
          = [''/q/choose'', ''/q/update'']
      \<and> error (demoStep cfg b (Responded st (Inr j)) (Rejected e) bust tres now s)
          = (if err_message e = [] then err_name e else err_message e)
      \<and> rows (demoStep cfg b (Responded st (Inr j)) (Rejected e) bust tres now s) = rows s
      \<and> lastUpdated (demoStep cfg b (Responded st (Inr j)) (Rejected e) bust tres now s)
          = lastUpdated s)
   \<and> (ok st \<and> j \<noteq> JNull \<and> \<not> ok st' \<longrightarrow>
        map path (drop (length (sent s))
                   (sent (demoStep cfg b (Responded st (Inr j)) (Responded st' bd) bust tres now s)))
          = [''/q/choose'', ''/q/update'']
      \<and> error (demoStep cfg b (Responded st (Inr j)) (Responded st' bd) bust tres now s)
          = ''POST /q/update HTTP '' @ show_nat st'
      \<and> rows (demoStep cfg b (Responded st (Inr j)) (Responded st' bd) bust tres now s) = rows s
      \<and> lastUpdated (demoStep cfg b (Responded st (Inr j)) (Responded st' bd) bust tres now s)
          = lastUpdated s)
   \<and> \<not> busyDemo (demoStep cfg b cres ures bust tres now s)"
proof -
  have stop1: "\<And>c x. choose_outcome c = Inl x \<Longrightarrow>
      map path (drop (length (sent s)) (sent (demoStep cfg b c ures bust tres now s)))
        = [''/q/choose'']
      \<and> error (demoStep cfg b c ures bust tres now s)
        = (if err_message x = [] then err_name x else err_message x)"
    by (simp add: demoStep_def demo_choose_settle_def demo_fail_def demo_begin_def send_def
        choose_request_def fetchJSON_def err_text_def)
  have stop2: "\<And>c u a x. choose_outcome c = Inr a \<Longrightarrow> update_outcome u = Inl x \<Longrightarrow>
      map path (drop (length (sent s)) (sent (demoStep cfg b c u bust tres now s)))
        = [''/q/choose'', ''/q/update'']
      \<and> error (demoStep cfg b c u bust tres now s)
        = (if err_message x = [] then err_name x else err_message x)
      \<and> rows (demoStep cfg b c u bust tres now s) = rows s
      \<and> lastUpdated (demoStep cfg b c u bust tres now s) = lastUpdated s"
    by (simp add: demoStep_def demo_choose_settle_def demo_update_settle_def demo_fail_def
        demo_begin_def send_def choose_request_def update_request_def fetchJSON_def err_text_def)
  have c_rej: "choose_outcome (Rejected e) = Inl e"
    by (simp add: choose_outcome_def)
  have c_bad: "\<not> ok st \<Longrightarrow> choose_outcome (Responded st bd)
      = Inl (JsError ''Error'' (''POST /q/choose HTTP '' @ show_nat st))"
    by (simp add: choose_outcome_def)
  have c_unp: "ok st \<Longrightarrow> choose_outcome (Responded st (Inl e)) = Inl e"
    by (simp add: choose_outcome_def)
  have u_rej: "update_outcome (Rejected e) = Inl e"
    by (simp add: update_outcome_def)
  have u_bad: "\<not> ok st' \<Longrightarrow> update_outcome (Responded st' bd)
      = Inl (JsError ''Error'' (''POST /q/update HTTP '' @ show_nat st'))"
    by (simp add: update_outcome_def)
  have p1: "map path (drop (length (sent s)) (sent (demoStep cfg b (Rejected e) ures bust tres now s)))
       = [''/q/choose'']
     \<and> error (demoStep cfg b (Rejected e) ures bust tres now s)
       = (if err_message e = [] then err_name e else err_message e)"
    by (rule stop1 [OF c_rej])
  have p2: "\<not> ok st \<longrightarrow>
        map path (drop (length (sent s))
                   (sent (demoStep cfg b (Responded st bd) ures bust tres now s)))
          = [''/q/choose'']
      \<and> error (demoStep cfg b (Responded st bd) ures bust tres now s)
          = ''POST /q/choose HTTP '' @ show_nat st"
  proof
    assume "\<not> ok st"
    from stop1 [OF c_bad [OF this]]
    show "map path (drop (length (sent s))
                   (sent (demoStep cfg b (Responded st bd) ures bust tres now s)))
          = [''/q/choose'']
      \<and> error (demoStep cfg b (Responded st bd) ures bust tres now s)
          = ''POST /q/choose HTTP '' @ show_nat st"
      by simp
  qed
  have p3: "ok st \<longrightarrow>
        map path (drop (length (sent s))
                   (sent (demoStep cfg b (Responded st (Inl e)) ures bust tres now s)))
          = [''/q/choose'']
      \<and> error (demoStep cfg b (Responded st (Inl e)) ures bust tres now s)
          = (if err_message e = [] then err_name e else err_message e)"
    using stop1 [OF c_unp] by blast
  have p4: "ok st \<and> j \<noteq> JNull \<longrightarrow>
        map path (drop (length (sent s))
                   (sent (demoStep cfg b (Responded st (Inr j)) (Rejected e) bust tres now s)))
          = [''/q/choose'', ''/q/update'']
      \<and> error (demoStep cfg b (Responded st (Inr j)) (Rejected e) bust tres now s)
          = (if err_message e = [] then err_name e else err_message e)
      \<and> rows (demoStep cfg b (Responded st (Inr j)) (Rejected e) bust tres now s) = rows s
      \<and> lastUpdated (demoStep cfg b (Responded st (Inr j)) (Rejected e) bust tres now s)
          = lastUpdated s"
  proof
    assume "ok st \<and> j \<noteq> JNull"
    then have "choose_outcome (Responded st (Inr j))
        = Inr (case j of JObj fs \<Rightarrow> obj_get fs ''action'' | _ \<Rightarrow> None)"
      by (simp add: choose_outcome_nonnull)
    from stop2 [OF this u_rej]
    show "map path (drop (length (sent s))
                   (sent (demoStep cfg b (Responded st (Inr j)) (Rejected e) bust tres now s)))
          = [''/q/choose'', ''/q/update'']
      \<and> error (demoStep cfg b (Responded st (Inr j)) (Rejected e) bust tres now s)
          = (if err_message e = [] then err_name e else err_message e)
      \<and> rows (demoStep cfg b (Responded st (Inr j)) (Rejected e) bust tres now s) = rows s
      \<and> lastUpdated (demoStep cfg b (Responded st (Inr j)) (Rejected e) bust tres now s)
          = lastUpdated s" .
  qed
  have p5: "ok st \<and> j \<noteq> JNull \<and> \<not> ok st' \<longrightarrow>
        map path (drop (length (sent s))
                   (sent (demoStep cfg b (Responded st (Inr j)) (Responded st' bd) bust tres now s)))
          = [''/q/choose'', ''/q/update'']
      \<and> error (demoStep cfg b (Responded st (Inr j)) (Responded st' bd) bust tres now s)
          = ''POST /q/update HTTP '' @ show_nat st'
      \<and> rows (demoStep cfg b (Responded st (Inr j)) (Responded st' bd) bust tres now s) = rows s
      \<and> lastUpdated (demoStep cfg b (Responded st (Inr j)) (Responded st' bd) bust tres now s)
          = lastUpdated s"
  proof
    assume a: "ok st \<and> j \<noteq> JNull \<and> \<not> ok st'"
    then have c: "choose_outcome (Responded st (Inr j))
        = Inr (case j of JObj fs \<Rightarrow> obj_get fs ''action'' | _ \<Rightarrow> None)"
      by (simp add: choose_outcome_nonnull)
    from a have "\<not> ok st'" by simp
    from stop2 [OF c u_bad [OF this]]
    show "map path (drop (length (sent s))
                   (sent (demoStep cfg b (Responded st (Inr j)) (Responded st' bd) bust tres now s)))
          = [''/q/choose'', ''/q/update'']
      \<and> error (demoStep cfg b (Responded st (Inr j)) (Responded st' bd) bust tres now s)
          = ''POST /q/update HTTP '' @ show_nat st'
      \<and> rows (demoStep cfg b (Responded st (Inr j)) (Responded st' bd) bust tres now s) = rows s
      \<and> lastUpdated (demoStep cfg b (Responded st (Inr j)) (Responded st' bd) bust tres now s)
          = lastUpdated s"
      by simp
  qed
  have p6: "\<not> busyDemo (demoStep cfg b cres ures bust tres now s)"
    by (simp add: demoStep_def demo_choose_settle_def demo_update_settle_def
        demo_refresh_settle_def demo_fail_def split: sum.splits prod.splits bool.splits)
  from p1 p2 p3 p4 p5 p6 show ?thesis by (intro conjI) (erule conjunct1 conjunct2 | assumption)+
qed

theorem demoStep_short_circuit_witness:
  "ok 200 \<and> \<not> ok 500 \<and> JObj [(''action'', JNum 3)] \<noteq> JNull
   \<and> map path (sent (demoStep default_props True
        (Responded 200 (Inl (JsError ''SyntaxError'' ''Unexpected end of JSON input'')))
        (Responded 200 (Inr (JObj []))) 1 (Responded 200 (Inr (JObj []))) 2 initial_panel))
       = [''/q/choose'']
   \<and> error (demoStep default_props True
        (Responded 200 (Inl (JsError ''SyntaxError'' ''Unexpected end of JSON input'')))
        (Responded 200 (Inr (JObj []))) 1 (Responded 200 (Inr (JObj []))) 2 initial_panel)
       = ''Unexpected end of JSON input''
   \<and> map path (sent (demoStep default_props True (Responded 200 (Inr (JObj [(''action'', JNum 3)])))
        (Responded 500 (Inr (JObj []))) 1 (Responded 200 (Inr (JObj []))) 2 initial_panel))
       = [''/q/choose'', ''/q/update'']
   \<and> error (demoStep default_props True (Responded 200 (Inr (JObj [(''action'', JNum 3)])))
        (Responded 500 (Inr (JObj []))) 1 (Responded 200 (Inr (JObj []))) 2 initial_panel)
       = ''POST /q/update HTTP 500''
   \<and> \<not> busyDemo (demoStep default_props True (Responded 200 (Inr (JObj [(''action'', JNum 3)])))
        (Responded 200 (Inr (JObj []))) 1 (Responded 200 (Inr (JObj []))) 2 initial_panel)
   \<and> map path (sent (demoStep default_props True (Responded 500 (Inr (JObj [])))
        (Responded 200 (Inr (JObj []))) 1 (Responded 200 (Inr (JObj []))) 2 initial_panel))
       = [''/q/choose'']
   \<and> error (demoStep default_props True (Responded 500 (Inr (JObj [])))
        (Responded 200 (Inr (JObj []))) 1 (Responded 200 (Inr (JObj []))) 2 initial_panel)
       = ''POST /q/choose HTTP 500''"
proof -
  have k: "ok 200" "\<not> ok 500" "JObj [(''action'', JNum 3)] \<noteq> JNull"
    by (simp_all add: ok_def)
  have z: "length (sent initial_panel) = 0" by (simp add: initial_panel_def)
  from demoStep_short_circuit [where s = initial_panel and cfg = default_props and b = True
      and e = "JsError ''SyntaxError'' ''Unexpected end of JSON input''"
      and ures = "Responded 200 (Inr (JObj []))" and bust = 1
      and tres = "Responded 200 (Inr (JObj []))" and now = 2
      and st = 200 and j = "JObj [(''action'', JNum 3)]" and st' = 500 and bd = "Inr (JObj [])"
      and cres = "Responded 200 (Inr (JObj [(''action'', JNum 3)]))"]
    demoStep_short_circuit [where s = initial_panel and cfg = default_props and b = True
      and ures = "Responded 200 (Inr (JObj []))" and bust = 1
      and tres = "Responded 200 (Inr (JObj []))" and now = 2
      and st = 500 and bd = "Inr (JObj [])"]
    k z
  show ?thesis by (simp add: show_nat_500)
qed

text \<open>
  Claim C7, as stated: in every execution of \<open>demoStep\<close> the update body has exactly the
  fields \<open>state\<close>, \<open>action\<close>, \<open>reward\<close>, \<open>next_state\<close>, \<open>done\<close>. It fails when the choose
  response is \<open>{}\<close>: \<open>action\<close> is \<open>undefined\<close>, \<open>JSON.stringify\<close> drops it, and the body
  that is sent has four fields.
\<close>

theorem update_body_without_action:
  "path (sent (demoStep default_props True (Responded 200 (Inr (JObj [])))
            (Responded 200 (Inr (JObj []))) 1 (Responded 200 (Inr (JObj []))) 2 initial_panel) ! 1)
     = ''/q/update''
   \<and> body (sent (demoStep default_props True (Responded 200 (Inr (JObj [])))
            (Responded 200 (Inr (JObj []))) 1 (Responded 200 (Inr (JObj []))) 2 initial_panel) ! 1)
     = Some (JObj [(''state'', JObj [(''difficulty'', JNum 2), (''enemies'', JNum 1),
                                     (''timeMult'', JNum 1), (''recentSR'', JNum (7 / 10))]),
                   (''reward'', JNum 1),
                   (''next_state'', JObj [(''difficulty'', JNum 2), (''enemies'', JNum 1),
                                          (''timeMult'', JNum 1), (''recentSR'', JNum (3 / 4))]),
                   (''done'', JBool False)])"
  by (simp add: demoStep_def demo_choose_settle_def demo_update_settle_def demo_refresh_settle_def
      demo_fail_def demo_begin_def send_def refresh_settle_def refresh_begin_def
      choose_outcome_def update_outcome_def ok_def obj_get_def initial_panel_def
      update_request_def fetchJSON_def json_stringify_def demo_state_def demo_state_fields_def
      next_state_def reward_def table_outcome_def)

text \<open>
  Claim C7, amended: whenever \<open>demoStep(outcome)\<close> gets an action value from the choose
  response, the second request it issues is the update, whose body has exactly the
  fields \<open>state\<close>, \<open>action\<close>, \<open>reward\<close>, \<open>next_state\<close>, \<open>done\<close>; the reward is 1 for a
  success and -1 for a failure; \<open>next_state\<close> is the composed state with only
  \<open>recentSR\<close> changed (0.7 to 0.75 on success, 0.3 to 0.25 on failure); \<open>done\<close> is false.
\<close>

theorem update_request_contents:
  assumes "choose_outcome cres = Inr (Some a)"
  shows "take 2 (drop (length (sent s)) (sent (demoStep cfg b cres ures bust tres now s)))
           = [fetchJSON (choose_request cfg b), fetchJSON (update_request cfg b (Some a))]
       \<and> body (fetchJSON (update_request cfg b (Some a)))
           = Some (JObj [(''state'', demo_state b), (''action'', a), (''reward'', JNum (reward b)),
                         (''next_state'', next_state b), (''done'', JBool False)])
       \<and> reward True = 1 \<and> reward False = - reward True
       \<and> demo_state b = JObj [(''difficulty'', JNum 2), (''enemies'', JNum 1), (''timeMult'', JNum 1),
                              (''recentSR'', JNum (if b then 7 / 10 else 3 / 10))]
       \<and> next_state b = JObj [(''difficulty'', JNum 2), (''enemies'', JNum 1), (''timeMult'', JNum 1),
                              (''recentSR'', JNum (if b then 3 / 4 else 1 / 4))]"
  using demoStep_sent_after_choose [OF assms]
  by (simp add: update_request_def fetchJSON_def json_stringify_def demo_state_def
      demo_state_fields_def next_state_def reward_def)

theorem update_request_contents_witness:
  "choose_outcome (Responded 200 (Inr (JObj [(''action'', JNum 3)]))) = Inr (Some (JNum 3))
   \<and> take 2 (sent (demoStep default_props False (Responded 200 (Inr (JObj [(''action'', JNum 3)])))
               (Responded 200 (Inr (JObj []))) 1 (Responded 200 (Inr (JObj []))) 2 initial_panel))
       = [fetchJSON (choose_request default_props False),
          fetchJSON (update_request default_props False (Some (JNum 3)))]
   \<and> body (fetchJSON (update_request default_props False (Some (JNum 3))))
       = Some (JObj [(''state'', JObj [(''difficulty'', JNum 2), (''enemies'', JNum 1),
                                       (''timeMult'', JNum 1), (''recentSR'', JNum (3 / 10))]),
                     (''action'', JNum 3),
                     (''reward'', JNum (- 1)),
                     (''next_state'', JObj [(''difficulty'', JNum 2), (''enemies'', JNum 1),
                                            (''timeMult'', JNum 1), (''recentSR'', JNum (1 / 4))]),
                     (''done'', JBool False)])"
proof -
  have c: "choose_outcome (Responded 200 (Inr (JObj [(''action'', JNum 3)]))) = Inr (Some (JNum 3))"
    by (simp add: choose_outcome_def ok_def obj_get_def)
  from update_request_contents [OF c, where s = initial_panel and cfg = default_props
      and b = False and ures = "Responded 200 (Inr (JObj []))" and bust = 1
      and tres = "Responded 200 (Inr (JObj []))" and now = 2] c
  show ?thesis by (simp add: initial_panel_def)
qed

text \<open>
  Claim C10, as stated: a 2xx choose response counts as a success whatever the shape of
  its JSON body, so a body without an \<open>action\<close> field never makes \<open>demoStep()\<close> abort.
  It fails on the body \<open>null\<close>, which has no \<open>action\<close> field: the read \<open>choose.action\<close>
  throws, no update request is issued and the error is shown.
\<close>

theorem choose_null_body_aborts:
  "sent (demoStep default_props True (Responded 200 (Inr JNull)) (Responded 200 (Inr (JObj [])))
            1 (Responded 200 (Inr (JObj []))) 2 initial_panel)
     = [fetchJSON (choose_request default_props True)]
   \<and> error (demoStep default_props True (Responded 200 (Inr JNull)) (Responded 200 (Inr (JObj [])))
            1 (Responded 200 (Inr (JObj []))) 2 initial_panel)
     = ''Cannot read properties of null (reading 'action')''"
  by (simp add: demoStep_def demo_choose_settle_def demo_fail_def demo_begin_def send_def
      choose_outcome_def ok_def initial_panel_def err_text_def)

text \<open>
  Claim C10, amended: if the choose request returns a 2xx status and its JSON body is
  not \<open>null\<close>, \<open>demoStep()\<close> does not abort at that step: no error is raised and the update
  request is issued with whatever \<open>choose.action\<close> gave. When the body has no \<open>action\<close>
  field that value is \<open>undefined\<close>, and the update body is sent without an \<open>action\<close>
  field.
\<close>

theorem choose_2xx_without_action_proceeds:
  assumes "ok st" and "j \<noteq> JNull"
  shows "(\<exists>act. choose_outcome (Responded st (Inr j)) = Inr act
            \<and> take 2 (drop (length (sent s))
                        (sent (demoStep cfg b (Responded st (Inr j)) ures bust tres now s)))
                = [fetchJSON (choose_request cfg b), fetchJSON (update_request cfg b act)])
       \<and> ((\<forall>fs. j = JObj fs \<longrightarrow> obj_get fs ''action'' = None) \<longrightarrow>
            choose_outcome (Responded st (Inr j)) = Inr None
            \<and> take 2 (drop (length (sent s))
                        (sent (demoStep cfg b (Responded st (Inr j)) ures bust tres now s)))
                = [fetchJSON (choose_request cfg b), fetchJSON (update_request cfg b None)])
       \<and> body (update_request cfg b None)
           = Some (JObj [(''state'', demo_state b), (''reward'', JNum (reward b)),
                         (''next_state'', next_state b), (''done'', JBool False)])"
proof -
  let ?act = "case j of JObj fs \<Rightarrow> obj_get fs ''action'' | _ \<Rightarrow> None"
  have out: "choose_outcome (Responded st (Inr j)) = Inr ?act"
    using assms by (rule choose_outcome_nonnull)
  have lacks: "(\<forall>fs. j = JObj fs \<longrightarrow> obj_get fs ''action'' = None) \<longrightarrow> ?act = None"
    by (cases j) simp_all
  have bdy: "body (update_request cfg b None)
           = Some (JObj [(''state'', demo_state b), (''reward'', JNum (reward b)),
                         (''next_state'', next_state b), (''done'', JBool False)])"
    by (simp add: update_request_def json_stringify_def)
  note issued = demoStep_sent_after_choose [OF out, of s cfg b ures bust tres now]
  have first: "\<exists>act. choose_outcome (Responded st (Inr j)) = Inr act
            \<and> take 2 (drop (length (sent s))
                        (sent (demoStep cfg b (Responded st (Inr j)) ures bust tres now s)))
                = [fetchJSON (choose_request cfg b), fetchJSON (update_request cfg b act)]"
    using out issued by (intro exI [of _ ?act] conjI)
  have second: "(\<forall>fs. j = JObj fs \<longrightarrow> obj_get fs ''action'' = None) \<longrightarrow>
            choose_outcome (Responded st (Inr j)) = Inr None
            \<and> take 2 (drop (length (sent s))
                        (sent (demoStep cfg b (Responded st (Inr j)) ures bust tres now s)))
                = [fetchJSON (choose_request cfg b), fetchJSON (update_request cfg b None)]"
  proof
    assume "\<forall>fs. j = JObj fs \<longrightarrow> obj_get fs ''action'' = None"
    with lacks have "?act = None" by (rule mp)
    with out issued
    show "choose_outcome (Responded st (Inr j)) = Inr None
            \<and> take 2 (drop (length (sent s))
                        (sent (demoStep cfg b (Responded st (Inr j)) ures bust tres now s)))
                = [fetchJSON (choose_request cfg b), fetchJSON (update_request cfg b None)]"
      by simp
  qed
  from first second bdy show ?thesis by (intro conjI)
qed

theorem choose_2xx_without_action_proceeds_witness:
  "ok 200 \<and> JObj [(''note'', JStr ''x'')] \<noteq> JNull
   \<and> obj_get [(''note'', JStr ''x'')] ''action'' = None
   \<and> choose_outcome (Responded 200 (Inr (JObj [(''note'', JStr ''x'')]))) = Inr None
   \<and> take 2 (sent (demoStep default_props True (Responded 200 (Inr (JObj [(''note'', JStr ''x'')])))
               (Responded 200 (Inr (JObj []))) 1 (Responded 200 (Inr (JObj []))) 2 initial_panel))
       = [fetchJSON (choose_request default_props True),
          fetchJSON (update_request default_props True None)]"
proof -
  have k: "ok 200" by (simp add: ok_def)
  have n: "JObj [(''note'', JStr ''x'')] \<noteq> JNull" by simp
  have g: "obj_get [(''note'', JStr ''x'')] ''action'' = None" by (simp add: obj_get_def)
  have l: "\<forall>fs. JObj [(''note'', JStr ''x'')] = JObj fs \<longrightarrow> obj_get fs ''action'' = None"
    using g by simp
  have z: "length (sent initial_panel) = 0" by (simp add: initial_panel_def)
  note inst = choose_2xx_without_action_proceeds [OF k n, where s = initial_panel
      and cfg = default_props and b = True and ures = "Responded 200 (Inr (JObj []))"
      and bust = 1 and tres = "Responded 200 (Inr (JObj []))" and now = 2]
  have "choose_outcome (Responded 200 (Inr (JObj [(''note'', JStr ''x'')]))) = Inr None
      \<and> take 2 (drop (length (sent initial_panel))
           (sent (demoStep default_props True (Responded 200 (Inr (JObj [(''note'', JStr ''x'')])))
               (Responded 200 (Inr (JObj []))) 1 (Responded 200 (Inr (JObj []))) 2 initial_panel)))
       = [fetchJSON (choose_request default_props True),
          fetchJSON (update_request default_props True None)]"
    by (rule inst [THEN conjunct2, THEN conjunct1, THEN mp, OF l])
  with k n g z show ?thesis by simp
qed

section \<open>Keyboard shortcut\<close>

text \<open>
  Claim C8, as stated: the shortcut never starts a refresh while Ctrl, Meta, Alt or
  Shift is held. It fails for Shift: Shift+R arrives with \<open>key = "R"\<close>, which
  \<open>toLowerCase()\<close> turns into \<open>"r"\<close>, and \<open>shiftKey\<close> is not tested.
\<close>

theorem shift_r_triggers_refresh:
  "pending (step (KeyDown \<lparr>key = ''R'', ctrlKey = False, metaKey = False, altKey = False,
                           shiftKey = True\<rparr>) 1
       \<lparr>ui = initial_panel, props = default_props, mounted = default_props, pending = []\<rparr>)
     = [AwaitTable False]"
  by (simp add: onKey_fires_def toLowerCase_R start_refresh_def)

text \<open>
  Claim C8, amended: the shortcut never starts a refresh (the key event changes
  nothing) while Ctrl, Meta or Alt is held; whether Shift is held makes no difference
  to the listener.
\<close>

theorem key_modifiers_block_refresh:
  "(ctrlKey e \<or> metaKey e \<or> altKey e \<longrightarrow> step (KeyDown e) t w = w)
   \<and> onKey_fires (e\<lparr>shiftKey := held\<rparr>) = onKey_fires e"
  by (auto simp add: onKey_fires_def)

theorem key_modifiers_block_refresh_witness:
  "ctrlKey \<lparr>key = ''r'', ctrlKey = True, metaKey = False, altKey = False, shiftKey = False\<rparr>
   \<and> step (KeyDown \<lparr>key = ''r'', ctrlKey = True, metaKey = False, altKey = False, shiftKey = False\<rparr>)
        1 \<lparr>ui = initial_panel, props = default_props, mounted = default_props, pending = []\<rparr>
     = \<lparr>ui = initial_panel, props = default_props, mounted = default_props, pending = []\<rparr>"
  using key_modifiers_block_refresh
    [where e = "\<lparr>key = ''r'', ctrlKey = True, metaKey = False, altKey = False, shiftKey = False\<rparr>"
       and t = 1
       and w = "\<lparr>ui = initial_panel, props = default_props, mounted = default_props, pending = []\<rparr>"]
  by simp

end
